theory Spec2Isabelle
  imports Main "HOL-Library.Sublist" "HOL-Library.AList"
begin

section \<open>The Bitnami workaround transform (\<^verbatim>\<open>src/bitnami.py\<close>)\<close>

text \<open>
  The module rewrites compose services that run Bitnami Redis, PostgreSQL or Keycloak
  images. Python dictionaries keep their insertion order, so a dictionary is modelled as
  an association list with distinct keys: \<open>map_of\<close> is a lookup, \<open>AList.update\<close> is an
  item assignment (an existing key keeps its place, a new key goes to the end),
  \<open>AList.delete\<close> is \<^verbatim>\<open>del\<close>/\<^verbatim>\<open>pop\<close>, and \<open>map fst\<close> is the list of keys in
  iteration order. A Python \<^verbatim>\<open>str\<close> is a \<open>string\<close> holding its UTF-8 bytes.
  Functions that mutate a service in place return the new service; what they print to
  \<^verbatim>\<open>sys.stderr\<close> is returned as a list of lines.
\<close>

subsection \<open>Python string operations used by the module\<close>

text \<open>\<^verbatim>\<open>frag in s\<close> on strings: \<open>frag\<close> occurs in \<open>s\<close> as a contiguous substring.\<close>

fun contains :: "string \<Rightarrow> string \<Rightarrow> bool" where
  "contains frag [] = (frag = [])"
| "contains frag (c # cs) = (prefix frag (c # cs) \<or> contains frag cs)"

text \<open>
  \<^verbatim>\<open>s.replace(old, new)\<close>: every non-overlapping occurrence of \<open>old\<close>, found scanning
  from the left, is replaced by \<open>new\<close>. For an empty \<open>old\<close> Python puts \<open>new\<close> before
  every character and at the end.
\<close>

function replace :: "string \<Rightarrow> string \<Rightarrow> string \<Rightarrow> string" where
  "replace [] old new = (if old = [] then new else [])"
| "replace (c # cs) old new =
     (if old = [] then new @ c # replace cs old new
      else if prefix old (c # cs) then new @ replace (drop (length old) (c # cs)) old new
      else c # replace cs old new)"
  by pat_completeness auto
termination
  by (relation "measure (\<lambda>(s, old, new). length s)") auto

text \<open>\<^verbatim>\<open>s.strip(ch)\<close> for a single character \<open>ch\<close>: leading and trailing runs of it go.\<close>

definition strip :: "string \<Rightarrow> char \<Rightarrow> string" where
  "strip s ch = rev (dropWhile (\<lambda>c. c = ch) (rev (dropWhile (\<lambda>c. c = ch) s)))"

subsection \<open>Data model\<close>

type_synonym 'v dict = "(string \<times> 'v) list"

text \<open>
  A compose service: the five keys the module reads or writes, each possibly absent.
  The record is extensible: whatever further keys a service has are its \<open>more\<close> part,
  and the functions below are defined for every such extension.
\<close>

record service =
  image_ref :: "string option"
  entrypoint :: "string list option"
  command :: "string list option"
  volumes :: "string list option"
  environment :: "string dict option"

text \<open>
  A Kubernetes Secret manifest: the two sub-mappings the module reads, and the names of
  the manifest's other keys (\<^verbatim>\<open>kind\<close>, \<^verbatim>\<open>metadata\<close>, ...), which only matter for
  the truth value of the dictionary.
\<close>

record secret =
  stringData :: "string dict option"
  data :: "string dict option"
  other_keys :: "string list"

text \<open>
  \<^verbatim>\<open>ctx.config\<close>: the option \<^verbatim>\<open>volume_root\<close> and the key names of the
  \<^verbatim>\<open>overrides\<close> mapping, each possibly absent. \<^verbatim>\<open>ctx.secrets\<close> maps names to
  Secret manifests.
\<close>

record config =
  volume_root :: "string option"
  overrides :: "string list option"

record ctx =
  secrets :: "secret dict"
  config :: config

text \<open>
  \<^verbatim>\<open>base64.b64decode(val).decode("utf-8")\<close> belongs to the standard library. The
  module's functions take it as an argument: it returns the text, or one of the two
  exceptions that \<^verbatim>\<open>_secret_value\<close> catches (\<^verbatim>\<open>binascii.Error\<close> is a
  \<^verbatim>\<open>ValueError\<close>).
\<close>

datatype decode_error = ValueError | UnicodeDecodeError

type_synonym decoder = "string \<Rightarrow> decode_error + string"

subsection \<open>Helpers\<close>

text \<open>\<^verbatim>\<open>_log\<close>: the line written to \<^verbatim>\<open>sys.stderr\<close>.\<close>

definition log :: "string \<Rightarrow> string" where
  "log msg = ''  [bitnami] '' @ msg"

text \<open>The two non-ASCII characters of the messages, as UTF-8 bytes.\<close>

definition arrow :: string where
  "arrow = [CHR 0xE2, CHR 0x86, CHR 0x92]"

definition warning_sign :: string where
  "warning_sign = [CHR 0xE2, CHR 0x9A, CHR 0xA0]"

text \<open>\<^verbatim>\<open>d or {}\<close> for an optional sub-mapping.\<close>

definition or_empty :: "'v dict option \<Rightarrow> 'v dict" where
  "or_empty d = (case d of None \<Rightarrow> [] | Some m \<Rightarrow> m)"

text \<open>\<^verbatim>\<open>_secret_value\<close>: \<open>None\<close> is Python's \<^verbatim>\<open>None\<close>.\<close>

definition secret_value :: "decoder \<Rightarrow> secret \<Rightarrow> string \<Rightarrow> string option" where
  "secret_value b64decode_utf8 secret key =
     (case map_of (or_empty (stringData secret)) key of
        Some val \<Rightarrow> Some val
      | None \<Rightarrow>
          (case map_of (or_empty (data secret)) key of
             Some val \<Rightarrow>
               (case b64decode_utf8 val of
                  Inr text \<Rightarrow> Some text
                | Inl err \<Rightarrow> Some val)
           | None \<Rightarrow> None))"

text \<open>\<^verbatim>\<open>_is_bitnami_image\<close>: a missing \<^verbatim>\<open>image\<close> reads as the empty string.\<close>

definition is_bitnami_image :: "'a service_scheme \<Rightarrow> string \<Rightarrow> bool" where
  "is_bitnami_image svc name_fragment =
     (let image = (case image_ref svc of None \<Rightarrow> [] | Some i \<Rightarrow> i)
      in contains ''bitnami'' image \<and> contains name_fragment image)"

text \<open>\<^verbatim>\<open>_find_secret\<close>: \<open>None\<close> is the pair \<^verbatim>\<open>(None, None)\<close>.\<close>

fun find_secret :: "secret dict \<Rightarrow> string list \<Rightarrow> (string \<times> secret) option" where
  "find_secret store [] = None"
| "find_secret store (name # candidates) =
     (case map_of store name of
        Some s \<Rightarrow> Some (name, s)
      | None \<Rightarrow> find_secret store candidates)"

text \<open>Truth value of a Secret manifest (\<^verbatim>\<open>if secret:\<close>): false for the empty dictionary.\<close>

definition secret_truthy :: "secret \<Rightarrow> bool" where
  "secret_truthy s = (\<not> (stringData s = None \<and> data s = None \<and> other_keys s = []))"

text \<open>Truth value of an optional string (\<^verbatim>\<open>if password:\<close>): false for \<^verbatim>\<open>None\<close> and \<^verbatim>\<open>""\<close>.\<close>

definition str_truthy :: "string option \<Rightarrow> bool" where
  "str_truthy v = (case v of None \<Rightarrow> False | Some s \<Rightarrow> s \<noteq> [])"

text \<open>How an f-string prints an optional name.\<close>

definition fmt :: "string option \<Rightarrow> string" where
  "fmt v = (case v of None \<Rightarrow> ''None'' | Some s \<Rightarrow> s)"

text \<open>\<^verbatim>\<open>ctx.config.get("volume_root", "./data")\<close>.\<close>

definition get_volume_root :: "ctx \<Rightarrow> string" where
  "get_volume_root c = (case volume_root (config c) of None \<Rightarrow> ''./data'' | Some v \<Rightarrow> v)"

text \<open>\<^verbatim>\<open>ctx.config.get("overrides", {})\<close>: the names it holds.\<close>

definition get_overrides :: "ctx \<Rightarrow> string list" where
  "get_overrides c = (case overrides (config c) of None \<Rightarrow> [] | Some ov \<Rightarrow> ov)"

text \<open>
  What the repair routines do with a resolved secret: \<^verbatim>\<open>_secret_value(secret, key)\<close>
  under the guard \<^verbatim>\<open>if secret:\<close>, and \<^verbatim>\<open>None\<close> otherwise.
\<close>

definition lookup_password ::
  "decoder \<Rightarrow> (string \<times> secret) option \<Rightarrow> string \<Rightarrow> string option" where
  "lookup_password dec found key =
     (case found of
        None \<Rightarrow> None
      | Some (sec_name, s) \<Rightarrow> if secret_truthy s then secret_value dec s key else None)"

subsection \<open>Redis\<close>

text \<open>Lines 53 and 54 of \<^verbatim>\<open>_fix_redis\<close>: the prefix and the candidate secret names.\<close>

definition redis_prefix :: "string \<Rightarrow> string" where
  "redis_prefix svc_name = replace (replace svc_name ''-redis-master'' []) ''-master'' []"

definition redis_candidates :: "string \<Rightarrow> string list" where
  "redis_candidates svc_name =
     [redis_prefix svc_name @ ''-redis'', redis_prefix svc_name, svc_name]"

definition fix_redis ::
  "decoder \<Rightarrow> string \<Rightarrow> 'a service_scheme \<Rightarrow> ctx \<Rightarrow> 'a service_scheme \<times> string list" where
  "fix_redis dec svc_name svc c =
     (let found = find_secret (secrets c) (redis_candidates svc_name);
          sec_name = map_option fst found;
          password = lookup_password dec found ''redis-password'';
          svc1 = svc\<lparr>image_ref := Some ''redis:7-alpine''\<rparr>;
          out1 = [log (svc_name @ '': image '' @ arrow @ '' redis:7-alpine'')];
          svc2 = svc1\<lparr>entrypoint := None\<rparr>;
          out2 = out1 @ [log (svc_name @ '': removed Bitnami entrypoint'')];
          cmd = (if str_truthy password
                 then [''redis-server''] @ [''--requirepass'', the password]
                 else [''redis-server'']);
          out3 = out2 @
                 [if str_truthy password
                  then log (svc_name @ '': password set from Secret '' @ [CHR 0x27]
                            @ fmt sec_name @ [CHR 0x27])
                  else log (svc_name @ '': '' @ warning_sign
                            @ '' no redis-password found, running without auth'')];
          svc3 = svc2\<lparr>command := Some cmd\<rparr>;
          vol = get_volume_root c @ ''/'' @ svc_name @ '':/data'';
          svc4 = svc3\<lparr>volumes := Some [vol]\<rparr>;
          out4 = out3 @ [log (svc_name @ '': volume '' @ arrow @ '' '' @ vol)];
          svc5 = svc4\<lparr>environment := None\<rparr>;
          out5 = out4 @ [log (svc_name @ '': removed Bitnami environment'')]
      in (svc5, out5))"

subsection \<open>PostgreSQL\<close>

definition fix_postgresql ::
  "string \<Rightarrow> 'a service_scheme \<Rightarrow> ctx \<Rightarrow> 'a service_scheme \<times> string list" where
  "fix_postgresql svc_name svc c =
     (let vols1 = [get_volume_root c @ ''/'' @ svc_name @ '':/bitnami/postgresql''];
          out1 = [log (svc_name @ '': data volume '' @ arrow @ '' /bitnami/postgresql'')];
          vols2 = vols1 @ [''./secrets/'' @ svc_name @ '':/opt/bitnami/postgresql/secrets:ro''];
          out2 = out1 @ [log (svc_name @ '': secrets mount '' @ arrow
                              @ '' /opt/bitnami/postgresql/secrets'')]
      in (svc\<lparr>volumes := Some vols2\<rparr>, out2))"

subsection \<open>Keycloak\<close>

text \<open>\<^verbatim>\<open>svc.setdefault("environment", {})[key] = value\<close>.\<close>

definition set_env :: "'a service_scheme \<Rightarrow> string \<Rightarrow> string \<Rightarrow> 'a service_scheme" where
  "set_env svc key val = svc\<lparr>environment := Some (AList.update key val (or_empty (environment svc)))\<rparr>"

definition keycloak_prefix :: "string \<Rightarrow> string" where
  "keycloak_prefix svc_name =
     strip (replace (replace svc_name ''-keycloak'' []) ''keycloak'' []) (CHR ''-'')"

text \<open>The candidate names for the admin secret and for the database secret.\<close>

definition keycloak_sec_candidates :: "string \<Rightarrow> string list" where
  "keycloak_sec_candidates svc_name =
     (let pfx = keycloak_prefix svc_name
      in if pfx \<noteq> [] then [pfx @ ''-keycloak'', svc_name, ''keycloak'']
         else [svc_name, ''keycloak''])"

definition keycloak_db_candidates :: "string \<Rightarrow> string list" where
  "keycloak_db_candidates svc_name =
     (let pfx = keycloak_prefix svc_name
      in [if pfx \<noteq> [] then pfx @ ''-postgresql'' else ''keycloak-postgresql'',
          ''keycloak-postgresql''])"

definition fix_keycloak ::
  "decoder \<Rightarrow> string \<Rightarrow> 'a service_scheme \<Rightarrow> ctx \<Rightarrow> 'a service_scheme \<times> string list" where
  "fix_keycloak dec svc_name svc c =
     (let found = find_secret (secrets c) (keycloak_sec_candidates svc_name);
          admin_pw = lookup_password dec found ''admin-password'';
          svc1 = (if str_truthy admin_pw
                  then set_env svc ''KC_BOOTSTRAP_ADMIN_PASSWORD'' (the admin_pw) else svc);
          out1 = (if str_truthy admin_pw
                  then [log (svc_name @ '': KC_BOOTSTRAP_ADMIN_PASSWORD set from Secret ''
                             @ [CHR 0x27] @ fmt (map_option fst found) @ [CHR 0x27])]
                  else []);
          db_found = find_secret (secrets c) (keycloak_db_candidates svc_name);
          db_pw = lookup_password dec db_found ''password'';
          svc2 = (if str_truthy db_pw then set_env svc1 ''KC_DB_PASSWORD'' (the db_pw) else svc1);
          out2 = out1 @
                 (if str_truthy db_pw
                  then [log (svc_name @ '': KC_DB_PASSWORD set from Secret ''
                             @ [CHR 0x27] @ fmt (map_option fst db_found) @ [CHR 0x27])]
                  else [])
      in (svc2, out2))"

text \<open>
  \<^verbatim>\<open>_fix_keycloak_init\<close>: the names to remove are collected first, then each entry
  is deleted and the deletion logged.
\<close>

definition init_to_remove :: "string \<Rightarrow> 'v dict \<Rightarrow> string list" where
  "init_to_remove svc_name compose_services =
     filter (\<lambda>name. contains (replace svc_name ''-keycloak'' []) name
                     \<and> contains ''init-prepare-write-dirs'' name)
            (map fst compose_services)"

fun remove_all :: "string list \<Rightarrow> 'v dict \<Rightarrow> string list \<Rightarrow> 'v dict \<times> string list" where
  "remove_all [] compose_services out = (compose_services, out)"
| "remove_all (name # to_remove) compose_services out =
     remove_all to_remove (AList.delete name compose_services)
       (out @ [log (name @ '': removed (emptyDir copy fails in compose)'')])"

definition fix_keycloak_init :: "string \<Rightarrow> 'v dict \<Rightarrow> 'v dict \<times> string list" where
  "fix_keycloak_init svc_name compose_services =
     remove_all (init_to_remove svc_name compose_services) compose_services []"

subsection \<open>The transform\<close>

text \<open>
  \<^verbatim>\<open>compose_services[svc_name]\<close> raises \<^verbatim>\<open>KeyError\<close> for a missing key. The
  services are mutated in place, so an exception leaves the caller with the services as
  they are at that moment: the error carries them, and the lines printed so far.
\<close>

datatype error = KeyError string

type_synonym 'a outcome =
  "(error \<times> 'a service_scheme dict \<times> string list) + ('a service_scheme dict \<times> string list)"

fun transform_loop ::
  "decoder \<Rightarrow> ctx \<Rightarrow> string list \<Rightarrow> string list \<Rightarrow> 'a service_scheme dict \<Rightarrow> string list
     \<Rightarrow> 'a outcome" where
  "transform_loop dec c user_overrides [] compose_services out = Inr (compose_services, out)"
| "transform_loop dec c user_overrides (svc_name # names) compose_services out =
     (if svc_name \<in> set user_overrides
      then transform_loop dec c user_overrides names compose_services out
      else
        (case map_of compose_services svc_name of
           None \<Rightarrow> Inl (KeyError svc_name, compose_services, out)
         | Some svc \<Rightarrow>
             if is_bitnami_image svc ''redis'' then
               transform_loop dec c user_overrides names
                 (AList.update svc_name (fst (fix_redis dec svc_name svc c)) compose_services)
                 (out @ snd (fix_redis dec svc_name svc c))
             else if is_bitnami_image svc ''postgresql'' then
               transform_loop dec c user_overrides names
                 (AList.update svc_name (fst (fix_postgresql svc_name svc c)) compose_services)
                 (out @ snd (fix_postgresql svc_name svc c))
             else if is_bitnami_image svc ''keycloak'' then
               transform_loop dec c user_overrides names
                 (fst (fix_keycloak_init svc_name
                    (AList.update svc_name (fst (fix_keycloak dec svc_name svc c))
                       compose_services)))
                 (out @ snd (fix_keycloak dec svc_name svc c)
                      @ snd (fix_keycloak_init svc_name
                          (AList.update svc_name (fst (fix_keycloak dec svc_name svc c))
                             compose_services)))
             else transform_loop dec c user_overrides names compose_services out))"

text \<open>
  \<^verbatim>\<open>BitnamiWorkarounds.transform\<close>: the loop runs over \<^verbatim>\<open>list(compose_services)\<close>,
  the names as they are before the first step. \<^verbatim>\<open>ingress_entries\<close> is not used.
\<close>

definition transform :: "decoder \<Rightarrow> 'a service_scheme dict \<Rightarrow> 'i \<Rightarrow> ctx \<Rightarrow> 'a outcome" where
  "transform dec compose_services ingress_entries c =
     transform_loop dec c (get_overrides c)
       (map fst compose_services) compose_services []"

text \<open>The services the caller holds after the call, whether it returned or raised.\<close>

definition services_after :: "'a outcome \<Rightarrow> 'a service_scheme dict" where
  "services_after r = (case r of Inl (e, cs, out) \<Rightarrow> cs | Inr (cs, out) \<Rightarrow> cs)"

definition raised :: "'a outcome \<Rightarrow> error option" where
  "raised r = (case r of Inl (e, cs, out) \<Rightarrow> Some e | Inr (cs, out) \<Rightarrow> None)"

subsection \<open>The standard library's decoder\<close>

text \<open>
  \<^verbatim>\<open>base64.b64decode(val).decode("utf-8")\<close> as CPython computes it for a
  \<^verbatim>\<open>str\<close>: the string must be ASCII; \<^verbatim>\<open>binascii.a2b_base64\<close> (not in strict
  mode) skips every character outside the alphabet, stops at a complete padding, and
  fails when the data characters do not fill their last group of four; the bytes must
  then be well-formed UTF-8. \<open>b64_index\<close> is the table of the alphabet.
\<close>

definition b64_index :: "char \<Rightarrow> nat option" where
  "b64_index ch =
     (let n = (of_char ch :: nat)
      in if 65 \<le> n \<and> n \<le> 90 then Some (n - 65)
         else if 97 \<le> n \<and> n \<le> 122 then Some (n - 71)
         else if 48 \<le> n \<and> n \<le> 57 then Some (n + 4)
         else if n = 43 then Some 62
         else if n = 47 then Some 63
         else None)"

fun a2b_base64 :: "string \<Rightarrow> nat \<Rightarrow> nat \<Rightarrow> nat \<Rightarrow> nat list option" where
  "a2b_base64 [] quad_pos leftchar pads = (if quad_pos = 0 then Some [] else None)"
| "a2b_base64 (ch # rest) quad_pos leftchar pads =
     (if ch = CHR ''='' then
        (if 2 \<le> quad_pos \<and> 4 \<le> quad_pos + (pads + 1) then Some []
         else a2b_base64 rest quad_pos leftchar (if 2 \<le> quad_pos then pads + 1 else pads))
      else
        (case b64_index ch of
           None \<Rightarrow> a2b_base64 rest quad_pos leftchar pads
         | Some v \<Rightarrow>
             if quad_pos = 0 then a2b_base64 rest 1 v 0
             else if quad_pos = 1 then
               map_option ((#) (leftchar * 4 + v div 16)) (a2b_base64 rest 2 (v mod 16) 0)
             else if quad_pos = 2 then
               map_option ((#) (leftchar * 16 + v div 4)) (a2b_base64 rest 3 (v mod 4) 0)
             else map_option ((#) (leftchar * 64 + v)) (a2b_base64 rest 0 0 0)))"

definition continuation :: "nat \<Rightarrow> bool" where
  "continuation b = (128 \<le> b \<and> b \<le> 191)"

fun valid_utf8 :: "nat list \<Rightarrow> bool" where
  "valid_utf8 [] = True"
| "valid_utf8 (b # bs) =
     (if b < 128 then valid_utf8 bs
      else if 194 \<le> b \<and> b \<le> 223 then
        (case bs of
           b1 # r \<Rightarrow> continuation b1 \<and> valid_utf8 r
         | _ \<Rightarrow> False)
      else if 224 \<le> b \<and> b \<le> 239 then
        (case bs of
           b1 # b2 # r \<Rightarrow>
             (if b = 224 then 160 else 128) \<le> b1 \<and> b1 \<le> (if b = 237 then 159 else 191)
             \<and> continuation b2 \<and> valid_utf8 r
         | _ \<Rightarrow> False)
      else if 240 \<le> b \<and> b \<le> 244 then
        (case bs of
           b1 # b2 # b3 # r \<Rightarrow>
             (if b = 240 then 144 else 128) \<le> b1 \<and> b1 \<le> (if b = 244 then 143 else 191)
             \<and> continuation b2 \<and> continuation b3 \<and> valid_utf8 r
         | _ \<Rightarrow> False)
      else False)"

definition py_b64decode_utf8 :: decoder where
  "py_b64decode_utf8 val =
     (if list_all (\<lambda>ch. (of_char ch :: nat) < 128) val then
        (case a2b_base64 val 0 0 0 of
           None \<Rightarrow> Inl ValueError
         | Some bs \<Rightarrow> if valid_utf8 bs then Inr (map char_of bs) else Inl UnicodeDecodeError)
      else Inl ValueError)"

subsection \<open>The specification's reading of the Redis prefix\<close>


subsection \<open>The objects of the specification's scenario C\<close>

text \<open>
  The Keycloak service of scenario C (image \<^verbatim>\<open>bitnami/keycloak:23\<close>, no environment
  yet, its other keys arbitrary) before and after the repair, and the run context with
  the two secrets (their remaining keys arbitrary) and the default configuration.
\<close>

abbreviation scenario_c_keycloak :: "'a service_scheme \<Rightarrow> 'a service_scheme" where
  "scenario_c_keycloak svc \<equiv>
     svc\<lparr>image_ref := Some ''bitnami/keycloak:23'', environment := None\<rparr>"

abbreviation scenario_c_repaired :: "'a service_scheme \<Rightarrow> 'a service_scheme" where
  "scenario_c_repaired svc \<equiv>
     svc\<lparr>image_ref := Some ''bitnami/keycloak:23'',
         environment := Some [(''KC_BOOTSTRAP_ADMIN_PASSWORD'', ''adminpw''),
                              (''KC_DB_PASSWORD'', ''dbpw'')]\<rparr>"

abbreviation scenario_c_ctx ::
  "string dict option \<Rightarrow> string list \<Rightarrow> string dict option \<Rightarrow> string list \<Rightarrow> ctx" where
  "scenario_c_ctx d1 k1 d2 k2 \<equiv>
     \<lparr>secrets =
        [(''auth-keycloak'',
          \<lparr>stringData = Some [(''admin-password'', ''adminpw'')], data = d1, other_keys = k1\<rparr>),
         (''keycloak-postgresql'',
          \<lparr>stringData = Some [(''password'', ''dbpw'')], data = d2, other_keys = k2\<rparr>)],
      config = \<lparr>volume_root = None, overrides = None\<rparr>\<rparr>"

section \<open>Properties\<close>

subsection \<open>Evaluation on concrete inputs\<close>

lemmas eval_defs =
  transform_def get_overrides_def is_bitnami_image_def
  fix_keycloak_def keycloak_sec_candidates_def keycloak_db_candidates_def
  keycloak_prefix_def strip_def lookup_password_def str_truthy_def
  fix_keycloak_init_def init_to_remove_def AList.delete_eq
  secret_truthy_def secret_value_def or_empty_def set_env_def fmt_def
  fix_redis_def redis_candidates_def redis_prefix_def get_volume_root_def
  fix_postgresql_def Let_def

subsection \<open>User overrides\<close>

text \<open>
  Claim C1: a service named in the user overrides is never changed and never removed,
  also not by the companion removal that a Keycloak repair of another service triggers.

  The loop skips an overridden name, but \<open>fix_keycloak_init\<close> does not look at the
  overrides. With the services \<^verbatim>\<open>auth-init-prepare-write-dirs\<close> (image
  \<^verbatim>\<open>busybox\<close>) and \<^verbatim>\<open>auth-keycloak\<close> (image \<^verbatim>\<open>bitnami/keycloak:23\<close>)
  and the overrides \<^verbatim>\<open>{auth-init-prepare-write-dirs}\<close>, the call returns normally and
  the overridden service is gone.
\<close>

theorem override_companion_removed:
  "transform dec
     [(''auth-init-prepare-write-dirs'',
        \<lparr>image_ref = Some ''busybox'', entrypoint = None, command = None,
           volumes = None, environment = None\<rparr>),
      (''auth-keycloak'',
        \<lparr>image_ref = Some ''bitnami/keycloak:23'', entrypoint = None, command = None,
           volumes = None, environment = None\<rparr>)]
     ingress_entries
     \<lparr>secrets = [],
        config = \<lparr>volume_root = None, overrides = Some [''auth-init-prepare-write-dirs'']\<rparr>\<rparr>
   = Inr ([(''auth-keycloak'',
             \<lparr>image_ref = Some ''bitnami/keycloak:23'', entrypoint = None, command = None,
                volumes = None, environment = None\<rparr>)],
          [log ''auth-init-prepare-write-dirs: removed (emptyDir copy fails in compose)''])"
  by (simp add: eval_defs)

subsection \<open>Normal completion and insertion order\<close>

text \<open>
  Claim C2: on a well-formed Service Set the transform never raises, its result does not
  depend on the insertion order, and no name of the snapshot is looked up after its
  entry was deleted.

  The loop runs over a snapshot of the names, but it reads
  \<^verbatim>\<open>compose_services[svc_name]\<close> for each of them. When \<^verbatim>\<open>auth-keycloak\<close> comes
  before its companion \<^verbatim>\<open>auth-init-prepare-write-dirs\<close>, the companion is deleted in
  the first step and looked up in the second: \<^verbatim>\<open>KeyError\<close>. In the other order the
  call returns normally.
\<close>

theorem transform_raises_on_removed_companion:
  "transform dec
     [(''auth-keycloak'',
        \<lparr>image_ref = Some ''bitnami/keycloak:23'', entrypoint = None, command = None,
           volumes = None, environment = None\<rparr>),
      (''auth-init-prepare-write-dirs'',
        \<lparr>image_ref = Some ''busybox'', entrypoint = None, command = None,
           volumes = None, environment = None\<rparr>)]
     ingress_entries
     \<lparr>secrets = [], config = \<lparr>volume_root = None, overrides = None\<rparr>\<rparr>
   = Inl (KeyError ''auth-init-prepare-write-dirs'',
          [(''auth-keycloak'',
             \<lparr>image_ref = Some ''bitnami/keycloak:23'', entrypoint = None, command = None,
                volumes = None, environment = None\<rparr>)],
          [log ''auth-init-prepare-write-dirs: removed (emptyDir copy fails in compose)''])
   \<and>
   transform dec
     [(''auth-init-prepare-write-dirs'',
        \<lparr>image_ref = Some ''busybox'', entrypoint = None, command = None,
           volumes = None, environment = None\<rparr>),
      (''auth-keycloak'',
        \<lparr>image_ref = Some ''bitnami/keycloak:23'', entrypoint = None, command = None,
           volumes = None, environment = None\<rparr>)]
     ingress_entries
     \<lparr>secrets = [], config = \<lparr>volume_root = None, overrides = None\<rparr>\<rparr>
   = Inr ([(''auth-keycloak'',
             \<lparr>image_ref = Some ''bitnami/keycloak:23'', entrypoint = None, command = None,
                volumes = None, environment = None\<rparr>)],
          [log ''auth-init-prepare-write-dirs: removed (emptyDir copy fails in compose)''])"
  by (simp add: eval_defs)

subsection \<open>Scenario A: the Redis repair\<close>

text \<open>
  Claim C5: the Service Set holds \<^verbatim>\<open>cache-redis-master\<close> with image
  \<^verbatim>\<open>bitnami/redis:7.2\<close> (its other keys are arbitrary), the secret
  \<^verbatim>\<open>cache-redis\<close> has \<^verbatim>\<open>stringData: {redis-password: s3cret}\<close>, and the
  configuration is the default one. The transform returns normally; the service then
  has the image \<^verbatim>\<open>redis:7-alpine\<close>, no entrypoint, the command
  \<^verbatim>\<open>["redis-server", "--requirepass", "s3cret"]\<close>, the volumes
  \<^verbatim>\<open>["./data/cache-redis-master:/data"]\<close> and no environment, and five lines were
  printed.
\<close>

theorem scenario_cache_repair:
  "transform dec
     [(''cache-redis-master'', svc\<lparr>image_ref := Some ''bitnami/redis:7.2''\<rparr>)]
     ingress_entries
     \<lparr>secrets =
        [(''cache-redis'',
          \<lparr>stringData = Some [(''redis-password'', ''s3cret'')], data = d, other_keys = ks\<rparr>)],
      config = \<lparr>volume_root = None, overrides = None\<rparr>\<rparr>
   = Inr ([(''cache-redis-master'',
            svc\<lparr>image_ref := Some ''redis:7-alpine'', entrypoint := None,
                command := Some [''redis-server'', ''--requirepass'', ''s3cret''],
                volumes := Some [''./data/cache-redis-master:/data''],
                environment := None\<rparr>)],
          [log (''cache-redis-master: image '' @ arrow @ '' redis:7-alpine''),
           log ''cache-redis-master: removed Bitnami entrypoint'',
           log (''cache-redis-master: password set from Secret '' @ [CHR 0x27]
                @ ''cache-redis'' @ [CHR 0x27]),
           log (''cache-redis-master: volume '' @ arrow @ '' ./data/cache-redis-master:/data''),
           log ''cache-redis-master: removed Bitnami environment''])"
  by (simp add: eval_defs)

subsection \<open>Scenario C: the Keycloak repair\<close>

lemma outcome_simps:
  "services_after (Inr (cs, out)) = cs"
  "services_after (Inl (e, cs, out)) = cs"
  "raised (Inr (cs, out)) = None"
  "raised (Inl (e, cs, out)) = Some e"
  by (simp_all add: services_after_def raised_def)

lemma scenario_c_image:
  "is_bitnami_image (scenario_c_keycloak svc) ''redis'' = False"
  "is_bitnami_image (scenario_c_keycloak svc) ''postgresql'' = False"
  "is_bitnami_image (scenario_c_keycloak svc) ''keycloak'' = True"
  by (simp_all add: is_bitnami_image_def)

lemma scenario_c_fix_keycloak:
  "fst (fix_keycloak dec ''auth-keycloak'' (scenario_c_keycloak svc) (scenario_c_ctx d1 k1 d2 k2))
   = scenario_c_repaired svc"
  by (simp add: fix_keycloak_def keycloak_sec_candidates_def keycloak_db_candidates_def
      keycloak_prefix_def strip_def lookup_password_def str_truthy_def secret_truthy_def
      secret_value_def or_empty_def set_env_def Let_def)

lemma scenario_c_init:
  "fst (fix_keycloak_init ''auth-keycloak''
          [(''auth-init-prepare-write-dirs'', x), (''auth-keycloak'', y)])
   = [(''auth-keycloak'', y)]"
  "fst (fix_keycloak_init ''auth-keycloak''
          [(''auth-keycloak'', y), (''auth-init-prepare-write-dirs'', x)])
   = [(''auth-keycloak'', y)]"
  "fst (fix_keycloak_init ''auth-keycloak'' [(''auth-keycloak'', y)]) = [(''auth-keycloak'', y)]"
  "fst (fix_keycloak_init ''auth-init-prepare-write-dirs''
          [(''auth-init-prepare-write-dirs'', x), (''auth-keycloak'', y)])
   = [(''auth-keycloak'', y)]"
  by (simp_all add: fix_keycloak_init_def init_to_remove_def AList.delete_eq)

lemma scenario_c_overrides: "get_overrides (scenario_c_ctx d1 k1 d2 k2) = []"
  by (simp add: get_overrides_def)

text \<open>
  Claim C6 (scenario C): the Service Set holds \<^verbatim>\<open>auth-keycloak\<close> with image
  \<^verbatim>\<open>bitnami/keycloak:23\<close> and a service \<^verbatim>\<open>auth-init-prepare-write-dirs\<close>, the
  secrets are \<^verbatim>\<open>auth-keycloak\<close> with \<^verbatim>\<open>stringData: {admin-password: adminpw}\<close>
  and \<^verbatim>\<open>keycloak-postgresql\<close> with \<^verbatim>\<open>stringData: {password: dbpw}\<close>; running
  the transform leaves \<^verbatim>\<open>auth-keycloak\<close> with the environment
  \<^verbatim>\<open>{KC_BOOTSTRAP_ADMIN_PASSWORD: adminpw, KC_DB_PASSWORD: dbpw}\<close> and removes
  \<^verbatim>\<open>auth-init-prepare-write-dirs\<close>.

  Whatever the record \<open>i\<close> of the companion is: when the companion was inserted first,
  the call returns normally with exactly this result. When \<^verbatim>\<open>auth-keycloak\<close> was
  inserted first, the two repairs make the same changes, and then the loop looks the
  removed companion up and the call ends with \<^verbatim>\<open>KeyError\<close>, as in claim C2: the
  scenario does not run to its end.
\<close>

theorem scenario_identity_repair:
  "services_after (transform dec
      [(''auth-init-prepare-write-dirs'', i), (''auth-keycloak'', scenario_c_keycloak svc)]
      ingress_entries (scenario_c_ctx d1 k1 d2 k2))
   = [(''auth-keycloak'', scenario_c_repaired svc)]
   \<and> raised (transform dec
      [(''auth-init-prepare-write-dirs'', i), (''auth-keycloak'', scenario_c_keycloak svc)]
      ingress_entries (scenario_c_ctx d1 k1 d2 k2))
   = None
   \<and> services_after (transform dec
      [(''auth-keycloak'', scenario_c_keycloak svc), (''auth-init-prepare-write-dirs'', i)]
      ingress_entries (scenario_c_ctx d1 k1 d2 k2))
   = [(''auth-keycloak'', scenario_c_repaired svc)]
   \<and> raised (transform dec
      [(''auth-keycloak'', scenario_c_keycloak svc), (''auth-init-prepare-write-dirs'', i)]
      ingress_entries (scenario_c_ctx d1 k1 d2 k2))
   = Some (KeyError ''auth-init-prepare-write-dirs'')"
  by (simp add: transform_def scenario_c_overrides scenario_c_image scenario_c_fix_keycloak
      scenario_c_init outcome_simps)

subsection \<open>The PostgreSQL repair\<close>




subsection \<open>Secret resolution\<close>

lemma find_secret_None:
  "find_secret store cands = None \<longleftrightarrow> (\<forall>n\<in>set cands. map_of store n = None)"
  by (induction cands) (auto split: option.splits)

lemma find_secret_append:
  "\<forall>n\<in>set pre. map_of store n = None \<Longrightarrow>
   find_secret store (pre @ rest) = find_secret store rest"
  by (induction pre) auto

lemma find_secret_Some:
  "find_secret store cands = Some (name, s) \<Longrightarrow>
   \<exists>pre post. cands = pre @ name # post \<and> (\<forall>n\<in>set pre. map_of store n = None)
      \<and> map_of store name = Some s"
proof (induction cands)
  case Nil
  then show ?case by simp
next
  case (Cons a cands)
  show ?case
  proof (cases "map_of store a")
    case None
    with Cons.prems have "find_secret store cands = Some (name, s)" by simp
    from Cons.IH [OF this] obtain pre post where
      "cands = pre @ name # post" "\<forall>n\<in>set pre. map_of store n = None"
      "map_of store name = Some s"
      by blast
    with None have "a # cands = (a # pre) @ name # post
      \<and> (\<forall>n\<in>set (a # pre). map_of store n = None) \<and> map_of store name = Some s"
      by simp
    then show ?thesis by blast
  next
    case (Some t)
    with Cons.prems have "a = name" "t = s" by simp_all
    with Some have "a # cands = [] @ name # cands
      \<and> (\<forall>n\<in>set []. map_of store n = None) \<and> map_of store name = Some s"
      by simp
    then show ?thesis by blast
  qed
qed

lemma app_candidates:
  "redis_candidates ''app-redis-master'' = [''app-redis'', ''app'', ''app-redis-master'']"
  by (simp add: redis_candidates_def redis_prefix_def)

text \<open>
  Claim C9: \<open>find_secret\<close> returns \<open>None\<close> exactly when no candidate is a key of the
  store; otherwise it returns the first candidate that is a key, with its record: a
  candidate \<open>name\<close> in the store is returned when no candidate before it is in the store,
  and whatever is returned is such a candidate. For the service name
  \<^verbatim>\<open>app-redis-master\<close> the Redis repair looks up the candidates of
  \<open>redis_candidates\<close>: in any store that has \<^verbatim>\<open>app-redis\<close> (whether or not it has
  \<^verbatim>\<open>app\<close>) it resolves \<^verbatim>\<open>app-redis\<close>.
\<close>

theorem find_secret_first_match:
  "(find_secret store cands = None \<longleftrightarrow> (\<forall>n\<in>set cands. map_of store n = None))
   \<and> ((\<forall>n\<in>set pre. map_of store n = None) \<and> map_of store name = Some s \<longrightarrow>
        find_secret store (pre @ name # post) = Some (name, s))
   \<and> (find_secret store cands = Some (name, s) \<longrightarrow>
        (\<exists>pre post. cands = pre @ name # post \<and> (\<forall>n\<in>set pre. map_of store n = None)
           \<and> map_of store name = Some s))
   \<and> (map_of store ''app-redis'' = Some s \<longrightarrow>
        find_secret store (redis_candidates ''app-redis-master'') = Some (''app-redis'', s))"
  using find_secret_None [of store cands] find_secret_Some [of store cands name s]
    find_secret_append [of pre store "name # post"]
  by (simp add: app_candidates)

theorem find_secret_first_match_witness:
  "find_secret
     [(''app'', \<lparr>stringData = Some [(''redis-password'', ''two'')], data = None, other_keys = []\<rparr>),
      (''app-redis'', \<lparr>stringData = Some [(''redis-password'', ''one'')], data = None, other_keys = []\<rparr>)]
     (redis_candidates ''app-redis-master'')
   = Some (''app-redis'',
       \<lparr>stringData = Some [(''redis-password'', ''one'')], data = None, other_keys = []\<rparr>)
   \<and> find_secret
     [(''app'', \<lparr>stringData = Some [(''redis-password'', ''two'')], data = None, other_keys = []\<rparr>),
      (''app-redis'', \<lparr>stringData = Some [(''redis-password'', ''one'')], data = None, other_keys = []\<rparr>)]
     ([''other''] @ ''app'' # [''app-redis''])
   = Some (''app'',
       \<lparr>stringData = Some [(''redis-password'', ''two'')], data = None, other_keys = []\<rparr>)"
  using find_secret_first_match [of
     "[(''app'', \<lparr>stringData = Some [(''redis-password'', ''two'')], data = None, other_keys = []\<rparr>),
      (''app-redis'', \<lparr>stringData = Some [(''redis-password'', ''one'')], data = None, other_keys = []\<rparr>)]"
     "[]" "[''other'']" "''app''"
     "\<lparr>stringData = Some [(''redis-password'', ''two'')], data = None, other_keys = []\<rparr>"
     "[''app-redis'']"]
    find_secret_first_match [of
     "[(''app'', \<lparr>stringData = Some [(''redis-password'', ''two'')], data = None, other_keys = []\<rparr>),
      (''app-redis'', \<lparr>stringData = Some [(''redis-password'', ''one'')], data = None, other_keys = []\<rparr>)]"
     "[]" "[]" "''app-redis''"
     "\<lparr>stringData = Some [(''redis-password'', ''one'')], data = None, other_keys = []\<rparr>"
     "[]"]
  by simp

subsection \<open>Reading a value of a secret\<close>

lemma decode_s3cret: "py_b64decode_utf8 ''czNjcmV0'' = Inr ''s3cret''"
  by code_simp

lemma decode_not_base64: "py_b64decode_utf8 ''not base64'' = Inl ValueError"
  by (simp add: py_b64decode_utf8_def b64_index_def)

text \<open>
  Claim C4, as the code has it. For every decoder, secret and key: a value under
  \<^verbatim>\<open>stringData\<close> is returned as it is; otherwise a value under \<^verbatim>\<open>data\<close> is
  decoded, and when the decoder raises (\<^verbatim>\<open>ValueError\<close> or
  \<^verbatim>\<open>UnicodeDecodeError\<close>) the encoded string itself is returned; when neither
  sub-mapping has the key the result is \<^verbatim>\<open>None\<close>. The function is total: nothing is
  raised.
\<close>

theorem secret_value_lookup:
  "(map_of (or_empty (stringData s)) key = Some v \<longrightarrow> secret_value dec s key = Some v)
   \<and> (map_of (or_empty (stringData s)) key = None \<and> map_of (or_empty (data s)) key = Some v
        \<and> dec v = Inr text \<longrightarrow> secret_value dec s key = Some text)
   \<and> (map_of (or_empty (stringData s)) key = None \<and> map_of (or_empty (data s)) key = Some v
        \<and> dec v = Inl err \<longrightarrow> secret_value dec s key = Some v)
   \<and> (map_of (or_empty (stringData s)) key = None \<and> map_of (or_empty (data s)) key = None
        \<longrightarrow> secret_value dec s key = None)"
  by (simp add: secret_value_def)

theorem secret_value_lookup_witness:
  "secret_value py_b64decode_utf8
     \<lparr>stringData = Some [(''password'', ''plain'')],
        data = Some [(''password'', ''czNjcmV0'')], other_keys = []\<rparr> ''password'' = Some ''plain''
   \<and> secret_value py_b64decode_utf8
     \<lparr>stringData = None, data = Some [(''password'', ''czNjcmV0'')], other_keys = []\<rparr>
     ''password'' = Some ''s3cret''
   \<and> secret_value py_b64decode_utf8
     \<lparr>stringData = None, data = Some [(''password'', ''not base64'')], other_keys = []\<rparr>
     ''password'' = Some ''not base64''
   \<and> secret_value py_b64decode_utf8
     \<lparr>stringData = Some [(''user'', ''admin'')], data = None, other_keys = []\<rparr>
     ''password'' = None"
  using
    secret_value_lookup [of
      "\<lparr>stringData = Some [(''password'', ''plain'')],
        data = Some [(''password'', ''czNjcmV0'')], other_keys = []\<rparr>"
      "''password''" "''plain''" py_b64decode_utf8]
    secret_value_lookup [of
      "\<lparr>stringData = None, data = Some [(''password'', ''czNjcmV0'')], other_keys = []\<rparr>"
      "''password''" "''czNjcmV0''" py_b64decode_utf8 "''s3cret''"]
    secret_value_lookup [of
      "\<lparr>stringData = None, data = Some [(''password'', ''not base64'')], other_keys = []\<rparr>"
      "''password''" "''not base64''" py_b64decode_utf8 _ ValueError]
    secret_value_lookup [of
      "\<lparr>stringData = Some [(''user'', ''admin'')], data = None, other_keys = []\<rparr>"
      "''password''" _ py_b64decode_utf8]
  by (simp add: or_empty_def decode_s3cret decode_not_base64)

text \<open>
  Claim C4 as stated says more: every string under \<^verbatim>\<open>data\<close> that is not base64
  comes back unchanged. The standard decoder is lenient: it skips the characters outside
  the alphabet instead of failing. No character of \<^verbatim>\<open>!!!!\<close> is in the base64
  alphabet, the decoder returns the empty byte string for it, and the lookup returns
  the empty string, not \<^verbatim>\<open>!!!!\<close>.
\<close>

theorem secret_value_non_base64_counterexample:
  "list_all (\<lambda>ch. b64_index ch = None) ''!!!!''
   \<and> secret_value py_b64decode_utf8
       \<lparr>stringData = None, data = Some [(''password'', ''!!!!'')], other_keys = []\<rparr>
       ''password''
     = Some []
   \<and> [] \<noteq> ''!!!!''"
  by (simp add: secret_value_def or_empty_def py_b64decode_utf8_def b64_index_def)

subsection \<open>Empty secret values\<close>

lemma lookup_password_empty:
  assumes "found = Some (sec_name, s)"
    and "secret_value dec s key = Some [] \<or> \<not> secret_truthy s"
  shows "str_truthy (lookup_password dec found key) = False"
  using assms by (auto simp add: lookup_password_def str_truthy_def)

lemma fix_redis_no_password:
  assumes "str_truthy (lookup_password dec (find_secret (secrets c) (redis_candidates svc_name))
             ''redis-password'') = False"
  shows "fix_redis dec svc_name svc c =
     (svc\<lparr>image_ref := Some ''redis:7-alpine'', entrypoint := None,
          command := Some [''redis-server''],
          volumes := Some [get_volume_root c @ ''/'' @ svc_name @ '':/data''],
          environment := None\<rparr>,
      [log (svc_name @ '': image '' @ arrow @ '' redis:7-alpine''),
       log (svc_name @ '': removed Bitnami entrypoint''),
       log (svc_name @ '': '' @ warning_sign @ '' no redis-password found, running without auth''),
       log (svc_name @ '': volume '' @ arrow @ '' '' @ get_volume_root c @ ''/'' @ svc_name @ '':/data''),
       log (svc_name @ '': removed Bitnami environment'')])"
  using assms by (simp add: fix_redis_def Let_def)

lemma fix_keycloak_env_admin:
  assumes "str_truthy (lookup_password dec (find_secret (secrets c) (keycloak_sec_candidates svc_name))
             ''admin-password'') = False"
  shows "map_of (or_empty (environment (fst (fix_keycloak dec svc_name svc c))))
           ''KC_BOOTSTRAP_ADMIN_PASSWORD''
         = map_of (or_empty (environment svc)) ''KC_BOOTSTRAP_ADMIN_PASSWORD''"
  using assms by (simp add: fix_keycloak_def Let_def set_env_def or_empty_def update_conv')

lemma fix_keycloak_env_db:
  assumes "str_truthy (lookup_password dec (find_secret (secrets c) (keycloak_db_candidates svc_name))
             ''password'') = False"
  shows "map_of (or_empty (environment (fst (fix_keycloak dec svc_name svc c))))
           ''KC_DB_PASSWORD''
         = map_of (or_empty (environment svc)) ''KC_DB_PASSWORD''"
  using assms by (simp add: fix_keycloak_def Let_def set_env_def or_empty_def update_conv')

lemma fix_keycloak_nothing:
  assumes "str_truthy (lookup_password dec (find_secret (secrets c) (keycloak_sec_candidates svc_name))
             ''admin-password'') = False"
   and "str_truthy (lookup_password dec (find_secret (secrets c) (keycloak_db_candidates svc_name))
             ''password'') = False"
  shows "fix_keycloak dec svc_name svc c = (svc, [])"
  using assms by (simp add: fix_keycloak_def Let_def)

text \<open>
  Claim C10: a resolved secret whose value for the key is the empty string, or whose
  record is the empty dictionary, counts as no value. The Redis repair then sets the
  command to \<^verbatim>\<open>["redis-server"]\<close>, prints the no-password warning, and does what it
  does with an empty Secret Store. The Keycloak repair then leaves
  \<^verbatim>\<open>KC_BOOTSTRAP_ADMIN_PASSWORD\<close> (for the admin secret) and \<^verbatim>\<open>KC_DB_PASSWORD\<close>
  (for the database secret) as they are in the service's environment; when both
  secrets are so, the service is unchanged and nothing is printed.
\<close>

theorem empty_value_as_absent:
  "(find_secret (secrets c) (redis_candidates svc_name) = Some (sec_name, s)
      \<and> (secret_value dec s ''redis-password'' = Some [] \<or> \<not> secret_truthy s) \<longrightarrow>
      command (fst (fix_redis dec svc_name svc c)) = Some [''redis-server'']
      \<and> log (svc_name @ '': '' @ warning_sign @ '' no redis-password found, running without auth'')
          \<in> set (snd (fix_redis dec svc_name svc c))
      \<and> fix_redis dec svc_name svc c = fix_redis dec svc_name svc (c\<lparr>secrets := []\<rparr>))
   \<and> (find_secret (secrets c) (keycloak_sec_candidates svc_name) = Some (sec_name, s)
      \<and> (secret_value dec s ''admin-password'' = Some [] \<or> \<not> secret_truthy s) \<longrightarrow>
      map_of (or_empty (environment (fst (fix_keycloak dec svc_name svc c))))
           ''KC_BOOTSTRAP_ADMIN_PASSWORD''
         = map_of (or_empty (environment svc)) ''KC_BOOTSTRAP_ADMIN_PASSWORD'')
   \<and> (find_secret (secrets c) (keycloak_db_candidates svc_name) = Some (sec_name, s)
      \<and> (secret_value dec s ''password'' = Some [] \<or> \<not> secret_truthy s) \<longrightarrow>
      map_of (or_empty (environment (fst (fix_keycloak dec svc_name svc c))))
           ''KC_DB_PASSWORD''
         = map_of (or_empty (environment svc)) ''KC_DB_PASSWORD'')
   \<and> (find_secret (secrets c) (keycloak_sec_candidates svc_name) = Some (sec_name, s)
      \<and> (secret_value dec s ''admin-password'' = Some [] \<or> \<not> secret_truthy s)
      \<and> find_secret (secrets c) (keycloak_db_candidates svc_name) = Some (db_sec_name, t)
      \<and> (secret_value dec t ''password'' = Some [] \<or> \<not> secret_truthy t) \<longrightarrow>
      fix_keycloak dec svc_name svc c = (svc, []))"
proof -
  have none: "str_truthy (lookup_password dec (find_secret (secrets (c\<lparr>secrets := []\<rparr>))
      (redis_candidates svc_name)) ''redis-password'') = False"
    by (simp add: redis_candidates_def lookup_password_def str_truthy_def)
  have vr: "get_volume_root (c\<lparr>secrets := []\<rparr>) = get_volume_root c"
    by (simp add: get_volume_root_def)
  show ?thesis
    using lookup_password_empty [of "find_secret (secrets c) (redis_candidates svc_name)" sec_name s dec
            "''redis-password''"]
      lookup_password_empty [of "find_secret (secrets c) (keycloak_sec_candidates svc_name)" sec_name s dec
            "''admin-password''"]
      lookup_password_empty [of "find_secret (secrets c) (keycloak_db_candidates svc_name)" sec_name s dec
            "''password''"]
      lookup_password_empty [of "find_secret (secrets c) (keycloak_db_candidates svc_name)" db_sec_name t dec
            "''password''"]
      fix_redis_no_password [of dec c svc_name svc]
      fix_redis_no_password [OF none, of svc]
      fix_keycloak_env_admin [of dec c svc_name svc]
      fix_keycloak_env_db [of dec c svc_name svc]
      fix_keycloak_nothing [of dec c svc_name svc]
    by (simp add: vr)
qed

theorem empty_value_as_absent_witness:
  "command (fst (fix_redis py_b64decode_utf8 ''cache-redis-master''
      \<lparr>image_ref = Some ''bitnami/redis:7.2'', entrypoint = None, command = None,
         volumes = None, environment = None\<rparr>
      \<lparr>secrets = [(''cache-redis'',
           \<lparr>stringData = Some [(''redis-password'', [])], data = None, other_keys = []\<rparr>)],
         config = \<lparr>volume_root = None, overrides = None\<rparr>\<rparr>))
   = Some [''redis-server'']
   \<and> fix_keycloak py_b64decode_utf8 ''auth-keycloak''
      \<lparr>image_ref = Some ''bitnami/keycloak:23'', entrypoint = None, command = None,
         volumes = None, environment = None\<rparr>
      \<lparr>secrets = [(''auth-keycloak'', \<lparr>stringData = None, data = None, other_keys = []\<rparr>),
                    (''keycloak-postgresql'',
           \<lparr>stringData = Some [(''password'', [])], data = None, other_keys = []\<rparr>)],
         config = \<lparr>volume_root = None, overrides = None\<rparr>\<rparr>
   = (\<lparr>image_ref = Some ''bitnami/keycloak:23'', entrypoint = None, command = None,
         volumes = None, environment = None\<rparr>, [])"
proof -
  let ?rc = "\<lparr>secrets = [(''cache-redis'',
           \<lparr>stringData = Some [(''redis-password'', [])], data = None, other_keys = []\<rparr>)],
         config = \<lparr>volume_root = None, overrides = None\<rparr>\<rparr>"
  let ?rs = "\<lparr>stringData = Some [(''redis-password'', [])], data = None, other_keys = []\<rparr>"
  let ?kc = "\<lparr>secrets = [(''auth-keycloak'', \<lparr>stringData = None, data = None, other_keys = []\<rparr>),
                    (''keycloak-postgresql'',
           \<lparr>stringData = Some [(''password'', [])], data = None, other_keys = []\<rparr>)],
         config = \<lparr>volume_root = None, overrides = None\<rparr>\<rparr>"
  let ?ks = "\<lparr>stringData = None, data = None, other_keys = []\<rparr>"
  let ?kt = "\<lparr>stringData = Some [(''password'', [])], data = None, other_keys = []\<rparr>"
  have r1: "find_secret (secrets ?rc) (redis_candidates ''cache-redis-master'')
              = Some (''cache-redis'', ?rs)"
    by (simp add: redis_candidates_def redis_prefix_def)
  have r2: "secret_value py_b64decode_utf8 ?rs ''redis-password'' = Some []"
    by (simp add: secret_value_def or_empty_def)
  have k1: "find_secret (secrets ?kc) (keycloak_sec_candidates ''auth-keycloak'')
              = Some (''auth-keycloak'', ?ks)"
    by (simp add: keycloak_sec_candidates_def keycloak_prefix_def strip_def)
  have k2: "\<not> secret_truthy ?ks"
    by (simp add: secret_truthy_def)
  have k3: "find_secret (secrets ?kc) (keycloak_db_candidates ''auth-keycloak'')
              = Some (''keycloak-postgresql'', ?kt)"
    by (simp add: keycloak_db_candidates_def keycloak_prefix_def strip_def)
  have k4: "secret_value py_b64decode_utf8 ?kt ''password'' = Some []"
    by (simp add: secret_value_def or_empty_def)
  have redis: "command (fst (fix_redis py_b64decode_utf8 ''cache-redis-master''
      \<lparr>image_ref = Some ''bitnami/redis:7.2'', entrypoint = None, command = None,
         volumes = None, environment = None\<rparr> ?rc)) = Some [''redis-server'']"
    using empty_value_as_absent [where dec = py_b64decode_utf8
        and svc_name = "''cache-redis-master''" and c = ?rc and sec_name = "''cache-redis''"
        and s = ?rs] r1 r2
    by blast
  have keycloak: "fix_keycloak py_b64decode_utf8 ''auth-keycloak''
      \<lparr>image_ref = Some ''bitnami/keycloak:23'', entrypoint = None, command = None,
         volumes = None, environment = None\<rparr> ?kc
     = (\<lparr>image_ref = Some ''bitnami/keycloak:23'', entrypoint = None, command = None,
         volumes = None, environment = None\<rparr>, [])"
    using empty_value_as_absent [where dec = py_b64decode_utf8
        and svc_name = "''auth-keycloak''" and c = ?kc and sec_name = "''auth-keycloak''"
        and s = ?ks and db_sec_name = "''keycloak-postgresql''" and t = ?kt] k1 k2 k3 k4
    by blast
  from redis keycloak show ?thesis by blast
qed

subsection \<open>The prefix of the Redis repair\<close>



























subsection \<open>Services that are not repaired\<close>

lemma map_of_remove_all:
  "map_of (fst (remove_all ns cur out)) x = (if x \<in> set ns then None else map_of cur x)"
  by (induction ns arbitrary: cur out) (simp_all add: delete_conv')

lemma map_of_fix_keycloak_init:
  "map_of (fst (fix_keycloak_init k cur)) x =
     (if contains (replace k ''-keycloak'' []) x \<and> contains ''init-prepare-write-dirs'' x
      then None else map_of cur x)"
proof (cases "x \<in> fst ` set cur")
  case True
  then show ?thesis
    by (simp add: fix_keycloak_init_def map_of_remove_all init_to_remove_def)
next
  case False
  then have "map_of cur x = None" by (simp add: map_of_eq_None_iff)
  with False show ?thesis
    by (simp add: fix_keycloak_init_def map_of_remove_all init_to_remove_def)
qed

lemma loop_frame:
  assumes skipped: "m \<in> set ov \<or> \<not> (is_bitnami_image svc ''redis''
      \<or> is_bitnami_image svc ''postgresql'' \<or> is_bitnami_image svc ''keycloak'')"
    and "distinct ns"
    and "\<forall>k\<in>set ns. map_of cur k = None \<or> map_of cur k = map_of cs k"
    and "map_of cur m = Some svc \<or> (map_of cur m = None \<and> R)"
    and del: "\<And>k ksvc. k \<in> set ns \<Longrightarrow> k \<notin> set ov \<Longrightarrow> map_of cs k = Some ksvc \<Longrightarrow>
        is_bitnami_image ksvc ''keycloak'' \<Longrightarrow> \<not> is_bitnami_image ksvc ''redis'' \<Longrightarrow>
        \<not> is_bitnami_image ksvc ''postgresql'' \<Longrightarrow>
        contains (replace k ''-keycloak'' []) m \<Longrightarrow> contains ''init-prepare-write-dirs'' m \<Longrightarrow> R"
  shows "map_of (services_after (transform_loop dec c ov ns cur out)) m = Some svc
       \<or> (map_of (services_after (transform_loop dec c ov ns cur out)) m = None \<and> R)"
  using assms(2-)
proof (induction ns arbitrary: cur out)
  case Nil
  then show ?case by (simp add: outcome_simps)
next
  case (Cons k rest)
  have dist: "distinct rest" and knot: "k \<notin> set rest"
    using Cons.prems(1) by simp_all
  have del': "R"
    if "k' \<in> set rest" "k' \<notin> set ov" "map_of cs k' = Some ksvc"
      "is_bitnami_image ksvc ''keycloak''" "\<not> is_bitnami_image ksvc ''redis''"
      "\<not> is_bitnami_image ksvc ''postgresql''"
      "contains (replace k' ''-keycloak'' []) m" "contains ''init-prepare-write-dirs'' m"
    for k' ksvc
    using Cons.prems(4) [of k' ksvc] that by simp
  have j1: "\<forall>k'\<in>set rest. map_of cur k' = None \<or> map_of cur k' = map_of cs k'"
    using Cons.prems(2) by simp
  note j2 = Cons.prems(3)
  show ?case
  proof (cases "k \<in> set ov")
    case True
    then show ?thesis
      using Cons.IH [OF dist j1 j2 del'] by simp
  next
    case nov: False
    show ?thesis
    proof (cases "map_of cur k")
      case None
      with nov j2 show ?thesis by (simp add: outcome_simps)
    next
      case (Some ksvc)
      then have orig: "map_of cs k = Some ksvc"
        using Cons.prems(2) by simp
      have upd1: "\<And>v. \<forall>k'\<in>set rest. map_of (AList.update k v cur) k' = None
            \<or> map_of (AList.update k v cur) k' = map_of cs k'"
        using j1 knot by (auto simp add: update_conv')
      have km: "k = m \<Longrightarrow> ksvc = svc"
        using j2 Some by auto
      have upd2: "\<And>v. is_bitnami_image ksvc ''redis'' \<or> is_bitnami_image ksvc ''postgresql''
            \<or> is_bitnami_image ksvc ''keycloak'' \<Longrightarrow>
          map_of (AList.update k v cur) m = Some svc
            \<or> (map_of (AList.update k v cur) m = None \<and> R)"
        using j2 km skipped nov by (auto simp add: update_conv')
      show ?thesis
      proof (cases "is_bitnami_image ksvc ''redis''")
        case True
        then show ?thesis
          using Cons.IH [OF dist upd1 upd2 del'] nov Some by simp
      next
        case nr: False
        show ?thesis
        proof (cases "is_bitnami_image ksvc ''postgresql''")
          case True
          then show ?thesis
            using Cons.IH [OF dist upd1 upd2 del'] nov Some nr by simp
        next
          case np: False
          show ?thesis
          proof (cases "is_bitnami_image ksvc ''keycloak''")
            case False
            then show ?thesis
              using Cons.IH [OF dist j1 j2 del'] nov Some nr np by simp
          next
            case kc: True
            let ?cur' = "fst (fix_keycloak_init k
                (AList.update k (fst (fix_keycloak dec k ksvc c)) cur))"
            have i1: "\<forall>k'\<in>set rest. map_of ?cur' k' = None \<or> map_of ?cur' k' = map_of cs k'"
              using upd1 [of "fst (fix_keycloak dec k ksvc c)"]
              by (simp add: map_of_fix_keycloak_init)
            have i2: "map_of ?cur' m = Some svc \<or> (map_of ?cur' m = None \<and> R)"
            proof (cases "contains (replace k ''-keycloak'' []) m
                \<and> contains ''init-prepare-write-dirs'' m")
              case True
              then have "R"
                using Cons.prems(4) [of k ksvc] nov orig kc nr np by simp
              with True show ?thesis by (simp add: map_of_fix_keycloak_init)
            next
              case False
              then show ?thesis
                using upd2 [of "fst (fix_keycloak dec k ksvc c)"] kc
                by (auto simp add: map_of_fix_keycloak_init)
            qed
            show ?thesis
              using Cons.IH [OF dist i1 i2 del'] nov Some nr np kc by simp
          qed
        qed
      qed
    qed
  qed
qed

text \<open>
  The record of an overridden service is never changed; what the overrides do not
  prevent is its removal as a companion (claim C1).
\<close>

lemma override_record_kept:
  assumes "distinct (map fst cs)"
    and "map_of cs m = Some svc"
    and "m \<in> set (get_overrides c)"
  shows "map_of (services_after (transform dec cs ingress_entries c)) m = Some svc
     \<or> (map_of (services_after (transform dec cs ingress_entries c)) m = None
        \<and> contains ''init-prepare-write-dirs'' m
        \<and> (\<exists>k ksvc. k \<notin> set (get_overrides c) \<and> map_of cs k = Some ksvc
              \<and> is_bitnami_image ksvc ''keycloak'' \<and> \<not> is_bitnami_image ksvc ''redis''
              \<and> \<not> is_bitnami_image ksvc ''postgresql''
              \<and> contains (replace k ''-keycloak'' []) m))"
  unfolding transform_def
proof (rule loop_frame [OF _ assms(1)])
  show "m \<in> set (get_overrides c) \<or> \<not> (is_bitnami_image svc ''redis''
      \<or> is_bitnami_image svc ''postgresql'' \<or> is_bitnami_image svc ''keycloak'')"
    using assms(3) by simp
  show "\<forall>k\<in>set (map fst cs). map_of cs k = None \<or> map_of cs k = map_of cs k"
    by simp
  show "map_of cs m = Some svc \<or> (map_of cs m = None
        \<and> contains ''init-prepare-write-dirs'' m
        \<and> (\<exists>k ksvc. k \<notin> set (get_overrides c) \<and> map_of cs k = Some ksvc
              \<and> is_bitnami_image ksvc ''keycloak'' \<and> \<not> is_bitnami_image ksvc ''redis''
              \<and> \<not> is_bitnami_image ksvc ''postgresql''
              \<and> contains (replace k ''-keycloak'' []) m))"
    using assms(2) by simp
  show "contains ''init-prepare-write-dirs'' m
        \<and> (\<exists>k ksvc. k \<notin> set (get_overrides c) \<and> map_of cs k = Some ksvc
              \<and> is_bitnami_image ksvc ''keycloak'' \<and> \<not> is_bitnami_image ksvc ''redis''
              \<and> \<not> is_bitnami_image ksvc ''postgresql''
              \<and> contains (replace k ''-keycloak'' []) m)"
    if "k \<in> set (map fst cs)" "k \<notin> set (get_overrides c)" "map_of cs k = Some ksvc"
      "is_bitnami_image ksvc ''keycloak''" "\<not> is_bitnami_image ksvc ''redis''"
      "\<not> is_bitnami_image ksvc ''postgresql''"
      "contains (replace k ''-keycloak'' []) m" "contains ''init-prepare-write-dirs'' m"
    for k ksvc
    using that by blast
qed

text \<open>
  Claim C8, as the code has it. Let \<open>m\<close> be a service of the Service Set whose image
  matches none of the three families. After the call, whether it returned or raised,
  \<open>m\<close> is either still there with the very same record, or it has been removed; it is
  removed only as a companion: its name contains \<^verbatim>\<open>init-prepare-write-dirs\<close> and
  the name, without \<^verbatim>\<open>-keycloak\<close>, of a service \<open>k\<close> that is not overridden and is
  repaired as Keycloak.
\<close>

theorem unmatched_service_frame:
  assumes "distinct (map fst cs)"
    and "map_of cs m = Some svc"
    and "\<not> is_bitnami_image svc ''redis''"
    and "\<not> is_bitnami_image svc ''postgresql''"
    and "\<not> is_bitnami_image svc ''keycloak''"
  shows "map_of (services_after (transform dec cs ingress_entries c)) m = Some svc
     \<or> (map_of (services_after (transform dec cs ingress_entries c)) m = None
        \<and> contains ''init-prepare-write-dirs'' m
        \<and> (\<exists>k ksvc. k \<notin> set (get_overrides c) \<and> map_of cs k = Some ksvc
              \<and> is_bitnami_image ksvc ''keycloak'' \<and> \<not> is_bitnami_image ksvc ''redis''
              \<and> \<not> is_bitnami_image ksvc ''postgresql''
              \<and> contains (replace k ''-keycloak'' []) m))"
  unfolding transform_def
proof (rule loop_frame [OF _ assms(1)])
  show "m \<in> set (get_overrides c) \<or> \<not> (is_bitnami_image svc ''redis''
      \<or> is_bitnami_image svc ''postgresql'' \<or> is_bitnami_image svc ''keycloak'')"
    using assms(3-5) by simp
  show "\<forall>k\<in>set (map fst cs). map_of cs k = None \<or> map_of cs k = map_of cs k"
    by simp
  show "map_of cs m = Some svc \<or> (map_of cs m = None
        \<and> contains ''init-prepare-write-dirs'' m
        \<and> (\<exists>k ksvc. k \<notin> set (get_overrides c) \<and> map_of cs k = Some ksvc
              \<and> is_bitnami_image ksvc ''keycloak'' \<and> \<not> is_bitnami_image ksvc ''redis''
              \<and> \<not> is_bitnami_image ksvc ''postgresql''
              \<and> contains (replace k ''-keycloak'' []) m))"
    using assms(2) by simp
  show "contains ''init-prepare-write-dirs'' m
        \<and> (\<exists>k ksvc. k \<notin> set (get_overrides c) \<and> map_of cs k = Some ksvc
              \<and> is_bitnami_image ksvc ''keycloak'' \<and> \<not> is_bitnami_image ksvc ''redis''
              \<and> \<not> is_bitnami_image ksvc ''postgresql''
              \<and> contains (replace k ''-keycloak'' []) m)"
    if "k \<in> set (map fst cs)" "k \<notin> set (get_overrides c)" "map_of cs k = Some ksvc"
      "is_bitnami_image ksvc ''keycloak''" "\<not> is_bitnami_image ksvc ''redis''"
      "\<not> is_bitnami_image ksvc ''postgresql''"
      "contains (replace k ''-keycloak'' []) m" "contains ''init-prepare-write-dirs'' m"
    for k ksvc
    using that by blast
qed

theorem unmatched_service_frame_witness:
  "map_of (services_after (transform py_b64decode_utf8
      [(''web'', \<lparr>image_ref = Some ''nginx:1.27'', entrypoint = None, command = None,
           volumes = None, environment = Some [(''PORT'', ''80'')]\<rparr>),
       (''auth-init-prepare-write-dirs'',
          \<lparr>image_ref = Some ''busybox'', entrypoint = None, command = None,
             volumes = None, environment = None\<rparr>),
       (''auth-keycloak'',
          \<lparr>image_ref = Some ''bitnami/keycloak:23'', entrypoint = None, command = None,
             volumes = None, environment = None\<rparr>)]
      () \<lparr>secrets = [], config = \<lparr>volume_root = None, overrides = None\<rparr>\<rparr>)) ''web''
   = Some \<lparr>image_ref = Some ''nginx:1.27'', entrypoint = None, command = None,
           volumes = None, environment = Some [(''PORT'', ''80'')]\<rparr>"
  using unmatched_service_frame [of
      "[(''web'', \<lparr>image_ref = Some ''nginx:1.27'', entrypoint = None, command = None,
           volumes = None, environment = Some [(''PORT'', ''80'')]\<rparr>),
       (''auth-init-prepare-write-dirs'',
          \<lparr>image_ref = Some ''busybox'', entrypoint = None, command = None,
             volumes = None, environment = None\<rparr>),
       (''auth-keycloak'',
          \<lparr>image_ref = Some ''bitnami/keycloak:23'', entrypoint = None, command = None,
             volumes = None, environment = None\<rparr>)]"
      "''web''"
      "\<lparr>image_ref = Some ''nginx:1.27'', entrypoint = None, command = None,
           volumes = None, environment = Some [(''PORT'', ''80'')]\<rparr>"
      py_b64decode_utf8 "()"
      "\<lparr>secrets = [], config = \<lparr>volume_root = None, overrides = None\<rparr>\<rparr>"]
  by (simp add: is_bitnami_image_def)

text \<open>
  Claim C8 as stated fails for a companion: \<^verbatim>\<open>auth-init-prepare-write-dirs\<close> runs
  the image \<^verbatim>\<open>busybox\<close>, which is of no family, and the repair of
  \<^verbatim>\<open>auth-keycloak\<close> removes it from the Service Set.
\<close>

theorem unmatched_companion_counterexample:
  "\<not> is_bitnami_image
       \<lparr>image_ref = Some ''busybox'', entrypoint = None, command = None,
          volumes = None, environment = None\<rparr> ''redis''
   \<and> \<not> is_bitnami_image
       \<lparr>image_ref = Some ''busybox'', entrypoint = None, command = None,
          volumes = None, environment = None\<rparr> ''postgresql''
   \<and> \<not> is_bitnami_image
       \<lparr>image_ref = Some ''busybox'', entrypoint = None, command = None,
          volumes = None, environment = None\<rparr> ''keycloak''
   \<and> raised (transform py_b64decode_utf8
      [(''auth-init-prepare-write-dirs'',
          \<lparr>image_ref = Some ''busybox'', entrypoint = None, command = None,
             volumes = None, environment = None\<rparr>),
       (''auth-keycloak'',
          \<lparr>image_ref = Some ''bitnami/keycloak:23'', entrypoint = None, command = None,
             volumes = None, environment = None\<rparr>)]
      () \<lparr>secrets = [], config = \<lparr>volume_root = None, overrides = None\<rparr>\<rparr>) = None
   \<and> map_of (services_after (transform py_b64decode_utf8
      [(''auth-init-prepare-write-dirs'',
          \<lparr>image_ref = Some ''busybox'', entrypoint = None, command = None,
             volumes = None, environment = None\<rparr>),
       (''auth-keycloak'',
          \<lparr>image_ref = Some ''bitnami/keycloak:23'', entrypoint = None, command = None,
             volumes = None, environment = None\<rparr>)]
      () \<lparr>secrets = [], config = \<lparr>volume_root = None, overrides = None\<rparr>\<rparr>))
      ''auth-init-prepare-write-dirs'' = None"
  by (simp add: eval_defs outcome_simps)

end
